theory Spec2Isabelle
  imports Main "HOL-Library.Word"
begin

section \<open>The leader-side progress tracker of raft/tracker\<close>

text \<open>
  The embedding follows \<^verbatim>\<open>src/raft/tracker/state.go\<close> and
  \<^verbatim>\<open>src/raft/tracker/progress.go\<close>. Go's \<^verbatim>\<open>uint64\<close> is \<^typ>\<open>64 word\<close>, so
  \<open>+\<close> and \<open>-\<close> wrap around exactly as they do in the source, and \<open>\<le>\<close>, \<open><\<close> compare
  the unsigned values. A method with a pointer receiver takes the Progress and returns
  the updated one, next to its result when it has one. A Go panic is the left summand
  of a sum type. Receivers and the \<^verbatim>\<open>Inflights\<close> pointer are taken to be non-nil.
\<close>

type_synonym u64 = "64 word"

datatype error = Panic string

subsection \<open>state.go\<close>

type_synonym StateType = u64

definition StateProbe :: StateType where
  "StateProbe = 0"

definition StateReplicate :: StateType where
  "StateReplicate = 1"

definition StateSnapshot :: StateType where
  "StateSnapshot = 2"

definition prstmap :: "string list" where
  "prstmap = [''StateProbe'', ''StateReplicate'', ''StateSnapshot'']"

subsection \<open>Decimal output of \<^verbatim>\<open>%d\<close>\<close>

definition digit :: "nat \<Rightarrow> char" where
  "digit d = ''0123456789'' ! d"

fun fmt_d :: "nat \<Rightarrow> string" where
  "fmt_d n = (if n < 10 then [digit n] else fmt_d (n div 10) @ [digit (n mod 10)])"

declare fmt_d.simps [simp del]

text \<open>
  \<^verbatim>\<open>func (st StateType) String() string { return prstmap[uint64(st)] }\<close>:
  \<^verbatim>\<open>prstmap\<close> is an array of length 3, and an index beyond it is a run-time panic.
\<close>

definition StateType_String :: "StateType \<Rightarrow> error + string" where
  "StateType_String st =
     (if unat st < length prstmap then Inr (prstmap ! unat st)
      else Inl (Panic (''runtime error: index out of range ['' @ fmt_d (unat st)
                        @ ''] with length '' @ fmt_d (length prstmap))))"

subsection \<open>The inflight window\<close>

text \<open>
  Modelled from the spec: the type \<^verbatim>\<open>Inflights\<close> and its methods \<^verbatim>\<open>reset\<close>,
  \<^verbatim>\<open>Full\<close> and \<^verbatim>\<open>Count\<close>, which \<^verbatim>\<open>progress.go\<close> calls but whose file is not
  among the sources. The spec: "an ordered sequence of the highest log index carried by
  each outstanding message, capacity C"; "full() iff length == C"; "count() -> int";
  "reset(): clears all outstanding entries".
\<close>

record Inflights =
  buffer :: "u64 list"
  capacity :: nat

definition Full :: "Inflights \<Rightarrow> bool" where
  "Full ins = (length (buffer ins) = capacity ins)"

definition Count :: "Inflights \<Rightarrow> nat" where
  "Count ins = length (buffer ins)"

definition reset :: "Inflights \<Rightarrow> Inflights" where
  "reset ins = ins\<lparr>buffer := []\<rparr>"

subsection \<open>progress.go: the Progress of one follower\<close>

record Progress =
  Match :: u64
  Next :: u64
  State :: StateType
  PendingSnapshot :: u64
  RecentActive :: bool
  ProbeSent :: bool
  Inflights :: Inflights
  IsLearner :: bool

definition ResetState :: "Progress \<Rightarrow> StateType \<Rightarrow> Progress" where
  "ResetState pr state =
     pr\<lparr>ProbeSent := False, PendingSnapshot := 0, State := state,
        Inflights := reset (Inflights pr)\<rparr>"

text \<open>The package's own \<^verbatim>\<open>max\<close> and \<^verbatim>\<open>min\<close> on \<^verbatim>\<open>uint64\<close>.\<close>

definition max_u64 :: "u64 \<Rightarrow> u64 \<Rightarrow> u64" where
  "max_u64 a b = (if a > b then a else b)"

definition min_u64 :: "u64 \<Rightarrow> u64 \<Rightarrow> u64" where
  "min_u64 a b = (if a > b then b else a)"

definition ProbeAcked :: "Progress \<Rightarrow> Progress" where
  "ProbeAcked pr = pr\<lparr>ProbeSent := False\<rparr>"

definition BecomeProbe :: "Progress \<Rightarrow> Progress" where
  "BecomeProbe pr =
     (if State pr = StateSnapshot then
        (let pendingSnapshot = PendingSnapshot pr;
             pr1 = ResetState pr StateProbe
         in pr1\<lparr>Next := max_u64 (Match pr1 + 1) (pendingSnapshot + 1)\<rparr>)
      else
        (let pr1 = ResetState pr StateProbe
         in pr1\<lparr>Next := Match pr1 + 1\<rparr>))"

definition BecomeReplicate :: "Progress \<Rightarrow> Progress" where
  "BecomeReplicate pr =
     (let pr1 = ResetState pr StateReplicate
      in pr1\<lparr>Next := Match pr1 + 1\<rparr>)"

definition BecomeSnapshot :: "Progress \<Rightarrow> u64 \<Rightarrow> Progress" where
  "BecomeSnapshot pr snapshoti =
     (let pr1 = ResetState pr StateSnapshot
      in pr1\<lparr>PendingSnapshot := snapshoti\<rparr>)"

text \<open>
  \<^verbatim>\<open>MaybeUpdate\<close> returns \<^verbatim>\<open>updated\<close> and leaves the Progress changed; the model
  returns both.
\<close>

definition MaybeUpdate :: "Progress \<Rightarrow> u64 \<Rightarrow> bool \<times> Progress" where
  "MaybeUpdate pr n =
     (let (updated, pr1) =
            (if Match pr < n then (True, ProbeAcked (pr\<lparr>Match := n\<rparr>))
             else (False, pr))
      in (updated, pr1\<lparr>Next := max_u64 (Next pr1) (n + 1)\<rparr>))"

definition OptimisticUpdate :: "Progress \<Rightarrow> u64 \<Rightarrow> Progress" where
  "OptimisticUpdate pr n = pr\<lparr>Next := n + 1\<rparr>"

definition MaybeDecrTo :: "Progress \<Rightarrow> u64 \<Rightarrow> u64 \<Rightarrow> bool \<times> Progress" where
  "MaybeDecrTo pr rejected matchHint =
     (if State pr = StateReplicate then
        (if rejected \<le> Match pr then (False, pr)
         else (True, pr\<lparr>Next := Match pr + 1\<rparr>))
      else if Next pr - 1 \<noteq> rejected then (False, pr)
      else (True, pr\<lparr>Next := max_u64 (min_u64 rejected (matchHint + 1)) 1,
                      ProbeSent := False\<rparr>))"

definition IsPaused :: "Progress \<Rightarrow> error + bool" where
  "IsPaused pr =
     (if State pr = StateProbe then Inr (ProbeSent pr)
      else if State pr = StateReplicate then Inr (Full (Inflights pr))
      else if State pr = StateSnapshot then Inr True
      else Inl (Panic ''unexpected state''))"

subsection \<open>A sequence of acknowledgements\<close>

text \<open>
  The leader calls \<^verbatim>\<open>MaybeUpdate\<close> once for every acknowledgement it receives; the
  Progress after the calls with the indices of a list, in the list's order.
\<close>

fun MaybeUpdate_seq :: "Progress \<Rightarrow> u64 list \<Rightarrow> Progress" where
  "MaybeUpdate_seq pr [] = pr"
| "MaybeUpdate_seq pr (n # ns) = MaybeUpdate_seq (snd (MaybeUpdate pr n)) ns"

subsection \<open>progress.go: diagnostic output\<close>

text \<open>
  The verb \<^verbatim>\<open>%s\<close> of package \<^verbatim>\<open>fmt\<close>, applied to a value with a \<^verbatim>\<open>String\<close> method,
  writes what the method returns. When the method panics, \<^verbatim>\<open>fmt\<close> recovers the panic
  and writes it in place of the value.
\<close>

definition fmt_s :: "error + string \<Rightarrow> string" where
  "fmt_s r = (case r of Inr s \<Rightarrow> s
              | Inl (Panic msg) \<Rightarrow> ''%!s(PANIC=String method: '' @ msg @ '')'')"

text \<open>
  \<^verbatim>\<open>Progress.String\<close> writes into a buffer piece by piece. The call of \<^verbatim>\<open>IsPaused\<close>
  is outside \<^verbatim>\<open>fmt\<close>, so its panic ends the method.
\<close>

definition Progress_String :: "Progress \<Rightarrow> error + string" where
  "Progress_String pr =
     (let buf = fmt_s (StateType_String (State pr)) @ '' match='' @ fmt_d (unat (Match pr))
                  @ '' next='' @ fmt_d (unat (Next pr));
          buf = (if IsLearner pr then buf @ '' learner'' else buf)
      in case IsPaused pr of
           Inl e \<Rightarrow> Inl e
         | Inr paused \<Rightarrow>
             (let buf = (if paused then buf @ '' paused'' else buf);
                  buf = (if PendingSnapshot pr > 0
                         then buf @ '' pendingSnap='' @ fmt_d (unat (PendingSnapshot pr))
                         else buf);
                  buf = (if \<not> RecentActive pr then buf @ '' inactive'' else buf);
                  n = Count (Inflights pr);
                  buf = (if n > 0
                         then (let buf = buf @ '' inflight='' @ fmt_d n
                               in if Full (Inflights pr) then buf @ ''[full]'' else buf)
                         else buf)
              in Inr buf))"

text \<open>
  \<^verbatim>\<open>type ProgressMap map[uint64]*Progress\<close>. A Go map is walked in an order the
  language leaves open, and rendering depends on how that order is undone: the map is the
  list of its entries in the order \<^verbatim>\<open>range\<close> yields them, with every key once. The
  follower id is written \<open>fid\<close>, since \<open>id\<close> is HOL's identity.
\<close>

type_synonym ProgressMap = "(u64 \<times> Progress) list"

text \<open>\<^verbatim>\<open>for k := range m { ids = append(ids, k) }\<close>\<close>

fun range_keys :: "ProgressMap \<Rightarrow> u64 list \<Rightarrow> u64 list" where
  "range_keys [] ids = ids"
| "range_keys ((k, pr) # m) ids = range_keys m (ids @ [k])"

text \<open>
  \<^verbatim>\<open>m[id]\<close> printed with \<^verbatim>\<open>%s\<close>: the follower's \<^verbatim>\<open>String\<close>, with its panic
  recovered by \<^verbatim>\<open>fmt\<close>; a key that is not in the map gives the nil pointer, which
  \<^verbatim>\<open>fmt\<close> prints as \<^verbatim>\<open><nil>\<close>.
\<close>

definition index_fmt :: "ProgressMap \<Rightarrow> u64 \<Rightarrow> string" where
  "index_fmt m fid = (case map_of m fid of None \<Rightarrow> ''<nil>''
                     | Some pr \<Rightarrow> fmt_s (Progress_String pr))"

text \<open>\<^verbatim>\<open>for _, id := range ids { fmt.Fprintf(&buf, "%d: %s\n", id, m[id]) }\<close>\<close>

fun write_lines :: "ProgressMap \<Rightarrow> u64 list \<Rightarrow> string \<Rightarrow> string" where
  "write_lines m [] buf = buf"
| "write_lines m (fid # ids) buf =
     write_lines m ids (buf @ fmt_d (unat fid) @ '': '' @ index_fmt m fid @ [CHR 0x0A])"

text \<open>
  \<^verbatim>\<open>sort.Slice\<close> with \<^verbatim>\<open>ids[i] < ids[j]\<close> leaves the ids ascending; on numbers the
  ascending arrangement is unique, so it is the one \<^const>\<open>sort\<close> computes.
\<close>

definition ProgressMap_String :: "ProgressMap \<Rightarrow> string" where
  "ProgressMap_String m =
     (let ids = range_keys m [];
          ids = sort ids
      in write_lines m ids [])"

subsection \<open>The line the spec describes\<close>

text \<open>
  The spec's rendering of one follower, in the spec's order and with the spec's
  conditions: the state name, \<open>match\<close>, \<open>next\<close>, then \<open>learner\<close> if the flag is set,
  \<open>paused\<close> if \<^verbatim>\<open>is_paused()\<close>, \<open>pendingSnap=n\<close> if nonzero, \<open>inactive\<close> if not
  recently active, \<open>inflight=count\<close> if nonzero, with \<open>[full]\<close> when the window is
  full. It is compared with \<^const>\<open>Progress_String\<close> below.
\<close>

definition spec_line :: "Progress \<Rightarrow> string" where
  "spec_line pr =
     prstmap ! unat (State pr)
     @ '' match='' @ fmt_d (unat (Match pr))
     @ '' next='' @ fmt_d (unat (Next pr))
     @ (if IsLearner pr then '' learner'' else [])
     @ (if IsPaused pr = Inr True then '' paused'' else [])
     @ (if PendingSnapshot pr \<noteq> 0 then '' pendingSnap='' @ fmt_d (unat (PendingSnapshot pr))
        else [])
     @ (if \<not> RecentActive pr then '' inactive'' else [])
     @ (if Count (Inflights pr) \<noteq> 0
        then '' inflight='' @ fmt_d (Count (Inflights pr))
             @ (if Full (Inflights pr) then ''[full]'' else [])
        else [])"

text \<open>The three states the package declares.\<close>

definition recognized :: "StateType \<Rightarrow> bool" where
  "recognized st = (st = StateProbe \<or> st = StateReplicate \<or> st = StateSnapshot)"

subsection \<open>Concrete followers\<close>

text \<open>
  A follower as it is tracked right after it was added: probing, nothing matched, the
  first entry next, an empty window of capacity 2. Then a learner that replicates with a
  full window and has been silent, a follower waiting for the snapshot at index 12, and
  a table of the three, walked in the order 2, 3, 1. The closed instances below use them.
\<close>

definition pr0 :: Progress where
  "pr0 = \<lparr>Match = 0, Next = 1, State = StateProbe, PendingSnapshot = 0,
          RecentActive = True, ProbeSent = False,
          Inflights = \<lparr>buffer = [], capacity = 2\<rparr>, IsLearner = False\<rparr>"

definition pr_full :: Progress where
  "pr_full = \<lparr>Match = 5, Next = 8, State = StateReplicate, PendingSnapshot = 0,
          RecentActive = False, ProbeSent = False,
          Inflights = \<lparr>buffer = [6, 7], capacity = 2\<rparr>, IsLearner = True\<rparr>"

definition pr_snap :: Progress where
  "pr_snap = \<lparr>Match = 3, Next = 4, State = StateSnapshot, PendingSnapshot = 12,
          RecentActive = True, ProbeSent = False,
          Inflights = \<lparr>buffer = [], capacity = 2\<rparr>, IsLearner = False\<rparr>"

definition table0 :: ProgressMap where
  "table0 = [(2, pr_full), (3, pr_snap), (1, pr0)]"

section \<open>Properties\<close>

lemma max_u64_max: "max_u64 a b = max a b"
  by (auto simp: max_u64_def max_def)

lemma min_u64_min: "min_u64 a b = min a b"
  by (auto simp: min_u64_def min_def)

text \<open>
  C1. \<^verbatim>\<open>MaybeUpdate(n)\<close>: when \<open>n\<close> is above \<open>Match\<close> it sets \<open>Match\<close> to \<open>n\<close>,
  clears \<open>ProbeSent\<close> and returns true; in every case it sets \<open>Next\<close> to the maximum
  of the old \<open>Next\<close> and \<open>n + 1\<close> (the \<^verbatim>\<open>uint64\<close> sum); it returns false exactly
  when \<open>n \<le> Match\<close>, and then \<open>Match\<close> and \<open>State\<close> are as before.
\<close>

theorem MaybeUpdate_spec:
  "(Match pr < n \<longrightarrow>
      Match (snd (MaybeUpdate pr n)) = n
      \<and> \<not> ProbeSent (snd (MaybeUpdate pr n))
      \<and> fst (MaybeUpdate pr n))
   \<and> Next (snd (MaybeUpdate pr n)) = max (Next pr) (n + 1)
   \<and> (\<not> fst (MaybeUpdate pr n) \<longleftrightarrow> n \<le> Match pr)
   \<and> (n \<le> Match pr \<longrightarrow>
        Match (snd (MaybeUpdate pr n)) = Match pr
        \<and> State (snd (MaybeUpdate pr n)) = State pr)"
  by (auto simp: MaybeUpdate_def ProbeAcked_def max_u64_max)

theorem MaybeUpdate_spec_witness:
  "fst (MaybeUpdate pr0 5)
   \<and> Match (snd (MaybeUpdate pr0 5)) = 5
   \<and> \<not> ProbeSent (snd (MaybeUpdate pr0 5))
   \<and> Next (snd (MaybeUpdate pr0 5)) = 6
   \<and> \<not> fst (MaybeUpdate (pr0\<lparr>Match := 7, Next := 9\<rparr>) 3)
   \<and> Match (snd (MaybeUpdate (pr0\<lparr>Match := 7, Next := 9\<rparr>) 3)) = 7
   \<and> Next (snd (MaybeUpdate (pr0\<lparr>Match := 7, Next := 9\<rparr>) 3)) = 9
   \<and> State (snd (MaybeUpdate (pr0\<lparr>Match := 7, Next := 9\<rparr>) 3)) = StateProbe"
  using MaybeUpdate_spec [of pr0 5] MaybeUpdate_spec [of "pr0\<lparr>Match := 7, Next := 9\<rparr>" 3]
  by (simp add: pr0_def)

text \<open>
  C2. In \<open>StateReplicate\<close>, \<^verbatim>\<open>MaybeDecrTo(rejected, matchHint)\<close> returns false and
  leaves every field as it was when \<open>rejected \<le> Match\<close>; otherwise it sets \<open>Next\<close> to
  \<open>Match + 1\<close>, whatever the hint is, changes nothing else, and returns true.
\<close>

theorem MaybeDecrTo_Replicate:
  "State pr = StateReplicate \<Longrightarrow>
     MaybeDecrTo pr rejected matchHint =
       (if rejected \<le> Match pr then (False, pr)
        else (True, pr\<lparr>Next := Match pr + 1\<rparr>))"
  by (simp add: MaybeDecrTo_def)

theorem MaybeDecrTo_Replicate_witness:
  "MaybeDecrTo (pr0\<lparr>State := StateReplicate, Match := 4, Next := 9\<rparr>) 3 2
     = (False, pr0\<lparr>State := StateReplicate, Match := 4, Next := 9\<rparr>)
   \<and> MaybeDecrTo (pr0\<lparr>State := StateReplicate, Match := 4, Next := 9\<rparr>) 8 2
     = (True, pr0\<lparr>State := StateReplicate, Match := 4, Next := 5\<rparr>)"
  using MaybeDecrTo_Replicate [of "pr0\<lparr>State := StateReplicate, Match := 4, Next := 9\<rparr>" 3 2]
    MaybeDecrTo_Replicate [of "pr0\<lparr>State := StateReplicate, Match := 4, Next := 9\<rparr>" 8 2]
  by (simp add: pr0_def)

text \<open>
  C3. In \<open>StateProbe\<close> or \<open>StateSnapshot\<close>, \<^verbatim>\<open>MaybeDecrTo(rejected, matchHint)\<close>
  returns false and leaves every field as it was when \<open>rejected \<noteq> Next - 1\<close>; otherwise
  it sets \<open>Next\<close> to \<open>max (min rejected (matchHint + 1)) 1\<close>, which is at least 1,
  clears \<open>ProbeSent\<close> and returns true.
\<close>

theorem MaybeDecrTo_Probe_Snapshot:
  "State pr = StateProbe \<or> State pr = StateSnapshot \<Longrightarrow>
     MaybeDecrTo pr rejected matchHint =
       (if rejected \<noteq> Next pr - 1 then (False, pr)
        else (True, pr\<lparr>Next := max (min rejected (matchHint + 1)) 1, ProbeSent := False\<rparr>))
     \<and> (fst (MaybeDecrTo pr rejected matchHint) \<longrightarrow>
          1 \<le> Next (snd (MaybeDecrTo pr rejected matchHint)))"
  by (auto simp: MaybeDecrTo_def max_u64_max min_u64_min StateProbe_def StateSnapshot_def
      StateReplicate_def)

theorem MaybeDecrTo_Probe_Snapshot_witness:
  "MaybeDecrTo (pr0\<lparr>Next := 2, ProbeSent := True\<rparr>) 1 0 = (True, pr0\<lparr>Next := 1\<rparr>)
   \<and> MaybeDecrTo (pr0\<lparr>Next := 7, ProbeSent := True\<rparr>) 4 0
       = (False, pr0\<lparr>Next := 7, ProbeSent := True\<rparr>)
   \<and> MaybeDecrTo (pr0\<lparr>State := StateSnapshot, PendingSnapshot := 9, Next := 7\<rparr>) 6 3
       = (True, pr0\<lparr>State := StateSnapshot, PendingSnapshot := 9, Next := 4\<rparr>)"
  using MaybeDecrTo_Probe_Snapshot [of "pr0\<lparr>Next := 2, ProbeSent := True\<rparr>" 1 0]
    MaybeDecrTo_Probe_Snapshot [of "pr0\<lparr>Next := 7, ProbeSent := True\<rparr>" 4 0]
    MaybeDecrTo_Probe_Snapshot [of "pr0\<lparr>State := StateSnapshot, PendingSnapshot := 9, Next := 7\<rparr>" 6 3]
  by (simp add: pr0_def)

text \<open>
  C4. \<^verbatim>\<open>BecomeProbe\<close> ends in \<open>StateProbe\<close>. Coming from \<open>StateSnapshot\<close>, \<open>Next\<close>
  becomes the maximum of \<open>Match + 1\<close> and one past the pending snapshot held before
  the reset; coming from any other state it becomes \<open>Match + 1\<close>. From
  \<open>StateSnapshot\<close> with a pending snapshot of 10 and \<open>Match = 3\<close>, \<open>Next\<close> is 11.
\<close>

theorem BecomeProbe_spec:
  "State (BecomeProbe pr) = StateProbe
   \<and> (State pr = StateSnapshot \<longrightarrow>
        Next (BecomeProbe pr) = max (Match pr + 1) (PendingSnapshot pr + 1))
   \<and> (State pr \<noteq> StateSnapshot \<longrightarrow> Next (BecomeProbe pr) = Match pr + 1)
   \<and> (State pr = StateSnapshot \<and> PendingSnapshot pr = 10 \<and> Match pr = 3 \<longrightarrow>
        Next (BecomeProbe pr) = 11)"
  by (simp add: BecomeProbe_def ResetState_def max_u64_max Let_def)

theorem BecomeProbe_spec_witness:
  "Next (BecomeProbe (pr0\<lparr>State := StateSnapshot, PendingSnapshot := 10, Match := 3\<rparr>)) = 11
   \<and> Next (BecomeProbe (pr0\<lparr>State := StateReplicate, Match := 3, Next := 9\<rparr>)) = 4"
  using BecomeProbe_spec [of "pr0\<lparr>State := StateSnapshot, PendingSnapshot := 10, Match := 3\<rparr>"]
    BecomeProbe_spec [of "pr0\<lparr>State := StateReplicate, Match := 3, Next := 9\<rparr>"]
  by (simp add: pr0_def StateSnapshot_def StateReplicate_def)

text \<open>
  C5. \<^verbatim>\<open>IsPaused\<close> is \<open>ProbeSent\<close> in \<open>StateProbe\<close>, whether the window is full in
  \<open>StateReplicate\<close>, true in \<open>StateSnapshot\<close>, and for every other state value it
  panics instead of returning.
\<close>

theorem IsPaused_spec:
  "(State pr = StateProbe \<longrightarrow> IsPaused pr = Inr (ProbeSent pr))
   \<and> (State pr = StateReplicate \<longrightarrow> IsPaused pr = Inr (Full (Inflights pr)))
   \<and> (State pr = StateSnapshot \<longrightarrow> IsPaused pr = Inr True)
   \<and> (State pr \<noteq> StateProbe \<and> State pr \<noteq> StateReplicate \<and> State pr \<noteq> StateSnapshot \<longrightarrow>
        IsPaused pr = Inl (Panic ''unexpected state''))"
  by (simp add: IsPaused_def StateProbe_def StateReplicate_def StateSnapshot_def)

theorem IsPaused_spec_witness:
  "IsPaused (pr0\<lparr>ProbeSent := True\<rparr>) = Inr True
   \<and> IsPaused pr0 = Inr False
   \<and> IsPaused (pr0\<lparr>State := StateReplicate, Inflights := \<lparr>buffer = [4, 6], capacity = 2\<rparr>\<rparr>) = Inr True
   \<and> IsPaused (pr0\<lparr>State := StateReplicate\<rparr>) = Inr False
   \<and> IsPaused (pr0\<lparr>State := StateSnapshot\<rparr>) = Inr True
   \<and> IsPaused (pr0\<lparr>State := 3\<rparr>) = Inl (Panic ''unexpected state'')"
  using IsPaused_spec [of "pr0\<lparr>ProbeSent := True\<rparr>"] IsPaused_spec [of pr0]
    IsPaused_spec [of "pr0\<lparr>State := StateReplicate, Inflights := \<lparr>buffer = [4, 6], capacity = 2\<rparr>\<rparr>"]
    IsPaused_spec [of "pr0\<lparr>State := StateReplicate\<rparr>"]
    IsPaused_spec [of "pr0\<lparr>State := StateSnapshot\<rparr>"]
    IsPaused_spec [of "pr0\<lparr>State := 3\<rparr>"]
  by (simp add: pr0_def StateProbe_def StateSnapshot_def StateReplicate_def Full_def)

lemma MaybeUpdate_seq_append:
  "MaybeUpdate_seq pr (xs @ ys) = MaybeUpdate_seq (MaybeUpdate_seq pr xs) ys"
  by (induction xs arbitrary: pr) simp_all

lemma MaybeUpdate_Match_mono: "Match pr \<le> Match (snd (MaybeUpdate pr n))"
  by (auto simp: MaybeUpdate_def ProbeAcked_def)

lemma MaybeUpdate_seq_Match_mono: "Match pr \<le> Match (MaybeUpdate_seq pr ns)"
proof (induction ns arbitrary: pr)
  case Nil
  show ?case by simp
next
  case (Cons n ns)
  have "Match pr \<le> Match (snd (MaybeUpdate pr n))" by (rule MaybeUpdate_Match_mono)
  also have "\<dots> \<le> Match (MaybeUpdate_seq (snd (MaybeUpdate pr n)) ns)" by (rule Cons.IH)
  finally show ?case by simp
qed

text \<open>
  Orderings between indices are read on the numbers the \<^verbatim>\<open>uint64\<close> values stand for:
  \<open>next \<ge> match + 1\<close> is \<open>unat match + 1 \<le> unat next\<close>, which says \<open>match < next\<close>.
  The largest \<^verbatim>\<open>uint64\<close>, \<open>2 ^ 64 - 1\<close>, is \<open>- 1\<close>.
\<close>

lemma largest_uint64: "(- 1 :: u64) = 18446744073709551615"
  by simp

lemma plain_order: "unat a + 1 \<le> unat b \<longleftrightarrow> a < b" for a b :: u64
  by (simp add: word_less_nat_alt Suc_le_eq)

lemma MaybeUpdate_keeps_less:
  assumes "Match pr < Next pr" and "n \<noteq> - 1"
  shows "Match (snd (MaybeUpdate pr n)) < Next (snd (MaybeUpdate pr n))"
proof (cases "Match pr < n")
  case True
  from assms(2) have "n < n + 1" using inc_less_eq_iff [of n "n + 1"] by simp
  then have "n < max (Next pr) (n + 1)" by (simp add: less_max_iff_disj)
  with True show ?thesis by (simp add: MaybeUpdate_def ProbeAcked_def max_u64_max)
next
  case False
  from assms(1) have "Match pr < max (Next pr) (n + 1)" by (simp add: less_max_iff_disj)
  with False show ?thesis by (simp add: MaybeUpdate_def max_u64_max)
qed

lemma MaybeUpdate_seq_keeps_less:
  "Match pr < Next pr \<Longrightarrow> - 1 \<notin> set ns \<Longrightarrow>
     Match (MaybeUpdate_seq pr ns) < Next (MaybeUpdate_seq pr ns)"
proof (induction ns arbitrary: pr)
  case Nil
  then show ?case by simp
next
  case (Cons n ns)
  from Cons.prems have "n \<noteq> - 1" and rest: "- 1 \<notin> set ns" by auto
  with Cons.prems(1) have "Match (snd (MaybeUpdate pr n)) < Next (snd (MaybeUpdate pr n))"
    by (simp add: MaybeUpdate_keeps_less)
  from Cons.IH [OF this rest] show ?case by simp
qed

text \<open>
  C6. Start from a Progress with \<open>Next \<ge> Match + 1\<close> and call \<^verbatim>\<open>MaybeUpdate\<close> with
  any finite sequence of indices. Then \<open>Match\<close> never decreases: it is at least its
  first value after any prefix \<open>xs\<close> of the calls, and at least its value after \<open>xs\<close>
  after any longer sequence \<open>xs @ ys\<close>. And \<open>Next \<ge> Match + 1\<close> holds after every
  prefix of calls none of whose indices is the largest \<^verbatim>\<open>uint64\<close>.
\<close>

theorem MaybeUpdate_seq_invariant:
  assumes "unat (Match pr) + 1 \<le> unat (Next pr)"
  shows "Match pr \<le> Match (MaybeUpdate_seq pr xs)
         \<and> Match (MaybeUpdate_seq pr xs) \<le> Match (MaybeUpdate_seq pr (xs @ ys))
         \<and> (- 1 \<notin> set xs \<longrightarrow>
              unat (Match (MaybeUpdate_seq pr xs)) + 1 \<le> unat (Next (MaybeUpdate_seq pr xs)))"
proof -
  from assms have start: "Match pr < Next pr" by (simp only: plain_order)
  have "- 1 \<notin> set xs \<longrightarrow>
      unat (Match (MaybeUpdate_seq pr xs)) + 1 \<le> unat (Next (MaybeUpdate_seq pr xs))"
  proof
    assume "- 1 \<notin> set xs"
    with start have "Match (MaybeUpdate_seq pr xs) < Next (MaybeUpdate_seq pr xs)"
      by (rule MaybeUpdate_seq_keeps_less)
    then show "unat (Match (MaybeUpdate_seq pr xs)) + 1 \<le> unat (Next (MaybeUpdate_seq pr xs))"
      by (simp only: plain_order)
  qed
  then show ?thesis
    by (simp add: MaybeUpdate_seq_append MaybeUpdate_seq_Match_mono)
qed

theorem MaybeUpdate_seq_invariant_witness:
  "Match pr0 \<le> Match (MaybeUpdate_seq pr0 [4, 2])
   \<and> Match (MaybeUpdate_seq pr0 [4, 2]) \<le> Match (MaybeUpdate_seq pr0 [4, 2, 9])
   \<and> unat (Match (MaybeUpdate_seq pr0 [4, 2])) + 1 \<le> unat (Next (MaybeUpdate_seq pr0 [4, 2]))"
proof -
  have start: "unat (Match pr0) + 1 \<le> unat (Next pr0)" by (simp add: pr0_def)
  have below: "- 1 \<notin> set [4, 2 :: u64]" by simp
  from MaybeUpdate_seq_invariant [OF start, of "[4, 2]" "[9]"] below
  show ?thesis by (simp del: MaybeUpdate_seq.simps)
qed

text \<open>
  C6 without the bound on the indices fails, the ordering is lost: acknowledging the largest
  \<^verbatim>\<open>uint64\<close> on a fresh follower sets \<open>Match\<close> to it, while \<open>n + 1\<close> wraps to 0 and
  \<open>Next\<close> stays 1.
\<close>

theorem MaybeUpdate_seq_counterexample:
  "unat (Match pr0) + 1 \<le> unat (Next pr0)
   \<and> Match (MaybeUpdate_seq pr0 [18446744073709551615]) = 18446744073709551615
   \<and> Next (MaybeUpdate_seq pr0 [18446744073709551615]) = 1
   \<and> \<not> unat (Match (MaybeUpdate_seq pr0 [18446744073709551615])) + 1
         \<le> unat (Next (MaybeUpdate_seq pr0 [18446744073709551615]))"
  by (simp add: MaybeUpdate_def ProbeAcked_def max_u64_max pr0_def)

text \<open>
  C7. \<^verbatim>\<open>BecomeReplicate\<close>, from any state, ends in \<open>StateReplicate\<close> with \<open>Next\<close> one
  past the unchanged \<open>Match\<close>, \<open>ProbeSent\<close> false, no pending snapshot and an empty
  window; with \<open>Match = 7\<close> the result has \<open>Next = 8\<close>.
\<close>

theorem BecomeReplicate_spec:
  "State (BecomeReplicate pr) = StateReplicate
   \<and> Match (BecomeReplicate pr) = Match pr
   \<and> Next (BecomeReplicate pr) = Match pr + 1
   \<and> \<not> ProbeSent (BecomeReplicate pr)
   \<and> PendingSnapshot (BecomeReplicate pr) = 0
   \<and> Count (Inflights (BecomeReplicate pr)) = 0
   \<and> (Match pr = 7 \<longrightarrow> Next (BecomeReplicate pr) = 8)"
  by (simp add: BecomeReplicate_def ResetState_def Let_def reset_def Count_def)

theorem BecomeReplicate_spec_witness:
  "Next (BecomeReplicate (pr0\<lparr>Match := 7, State := StateSnapshot, PendingSnapshot := 9\<rparr>)) = 8"
  using BecomeReplicate_spec [of "pr0\<lparr>Match := 7, State := StateSnapshot, PendingSnapshot := 9\<rparr>"]
  by (simp add: pr0_def)

lemma round_trip_fields:
  "State (BecomeProbe (BecomeSnapshot (BecomeReplicate (BecomeProbe pr)) 5)) = StateProbe"
  "PendingSnapshot (BecomeProbe (BecomeSnapshot (BecomeReplicate (BecomeProbe pr)) 5)) = 0"
  "Match (BecomeProbe (BecomeSnapshot (BecomeReplicate (BecomeProbe pr)) 5)) = Match pr"
  "Next (BecomeProbe (BecomeSnapshot (BecomeReplicate (BecomeProbe pr)) 5)) = max (Match pr + 1) 6"
  by (simp_all add: BecomeProbe_def BecomeSnapshot_def BecomeReplicate_def
      ResetState_def Let_def max_u64_max StateProbe_def StateReplicate_def StateSnapshot_def)

text \<open>
  C8. \<^verbatim>\<open>BecomeProbe(); BecomeReplicate(); BecomeSnapshot(5); BecomeProbe()\<close> from any
  Progress ends in \<open>StateProbe\<close> with no pending snapshot; and with
  \<open>Next \<ge> Match + 1\<close> when the starting \<open>Match\<close> is not the largest \<^verbatim>\<open>uint64\<close>.
\<close>

theorem round_trip:
  "State (BecomeProbe (BecomeSnapshot (BecomeReplicate (BecomeProbe pr)) 5)) = StateProbe
   \<and> PendingSnapshot (BecomeProbe (BecomeSnapshot (BecomeReplicate (BecomeProbe pr)) 5)) = 0
   \<and> (Match pr \<noteq> - 1 \<longrightarrow>
        unat (Match (BecomeProbe (BecomeSnapshot (BecomeReplicate (BecomeProbe pr)) 5))) + 1
          \<le> unat (Next (BecomeProbe (BecomeSnapshot (BecomeReplicate (BecomeProbe pr)) 5))))"
proof -
  have "Match pr \<noteq> - 1 \<longrightarrow>
      unat (Match (BecomeProbe (BecomeSnapshot (BecomeReplicate (BecomeProbe pr)) 5))) + 1
        \<le> unat (Next (BecomeProbe (BecomeSnapshot (BecomeReplicate (BecomeProbe pr)) 5)))"
  proof
    assume "Match pr \<noteq> - 1"
    then have "Match pr < Match pr + 1"
      using inc_less_eq_iff [of "Match pr" "Match pr + 1"] by simp
    then have "Match pr < max (Match pr + 1) 6" by (simp add: less_max_iff_disj)
    then have "Match (BecomeProbe (BecomeSnapshot (BecomeReplicate (BecomeProbe pr)) 5))
        < Next (BecomeProbe (BecomeSnapshot (BecomeReplicate (BecomeProbe pr)) 5))"
      by (simp only: round_trip_fields)
    then show "unat (Match (BecomeProbe (BecomeSnapshot (BecomeReplicate (BecomeProbe pr)) 5))) + 1
        \<le> unat (Next (BecomeProbe (BecomeSnapshot (BecomeReplicate (BecomeProbe pr)) 5)))"
      by (simp only: plain_order)
  qed
  then show ?thesis by (simp only: round_trip_fields simp_thms)
qed

theorem round_trip_witness:
  "State (BecomeProbe (BecomeSnapshot (BecomeReplicate (BecomeProbe pr_full)) 5)) = StateProbe
   \<and> PendingSnapshot (BecomeProbe (BecomeSnapshot (BecomeReplicate (BecomeProbe pr_full)) 5)) = 0
   \<and> unat (Match (BecomeProbe (BecomeSnapshot (BecomeReplicate (BecomeProbe pr_full)) 5))) + 1
       \<le> unat (Next (BecomeProbe (BecomeSnapshot (BecomeReplicate (BecomeProbe pr_full)) 5)))"
  using round_trip [of pr_full]
  by (simp add: pr_full_def)

text \<open>
  C8 from every starting Progress fails in its ordering part: from a Progress whose
  \<open>Match\<close> is the largest \<^verbatim>\<open>uint64\<close>, \<open>Match + 1\<close> wraps to 0
  and the sequence ends with \<open>Next = 6\<close>, below \<open>Match\<close>.
\<close>

theorem round_trip_counterexample:
  "Match (BecomeProbe (BecomeSnapshot (BecomeReplicate
       (BecomeProbe (pr0\<lparr>Match := 18446744073709551615\<rparr>))) 5)) = 18446744073709551615
   \<and> Next (BecomeProbe (BecomeSnapshot (BecomeReplicate
       (BecomeProbe (pr0\<lparr>Match := 18446744073709551615\<rparr>))) 5)) = 6
   \<and> \<not> unat (Match (BecomeProbe (BecomeSnapshot (BecomeReplicate
           (BecomeProbe (pr0\<lparr>Match := 18446744073709551615\<rparr>))) 5))) + 1
         \<le> unat (Next (BecomeProbe (BecomeSnapshot (BecomeReplicate
               (BecomeProbe (pr0\<lparr>Match := 18446744073709551615\<rparr>))) 5)))"
  by (simp add: round_trip_fields)

subsection \<open>Rendering the table\<close>

lemma fmt_d_small: "n < 10 \<Longrightarrow> fmt_d n = [digit n]"
  by (simp add: fmt_d.simps)

lemma fmt_d_large: "10 \<le> n \<Longrightarrow> fmt_d n = fmt_d (n div 10) @ [digit (n mod 10)]"
  by (subst fmt_d.simps) simp

lemma digit_set: "d < 10 \<Longrightarrow> digit d \<in> set ''0123456789''"
  unfolding digit_def by (rule nth_mem) simp

lemma fmt_d_digits: "set (fmt_d n) \<subseteq> set ''0123456789''"
proof (induction n rule: fmt_d.induct)
  case (1 n)
  show ?case
  proof (cases "n < 10")
    case True
    then show ?thesis using digit_set [of n] by (simp add: fmt_d_small)
  next
    case False
    then have "set (fmt_d (n div 10)) \<subseteq> set ''0123456789''" by (rule "1.IH")
    moreover have "digit (n mod 10) \<in> set ''0123456789''" by (rule digit_set) simp
    ultimately show ?thesis using False by (simp add: fmt_d_large)
  qed
qed

lemma fmt_d_no_newline: "CHR 0x0A \<notin> set (fmt_d n)"
  using fmt_d_digits [of n] by auto

lemma Progress_String_recognized:
  assumes "recognized (State pr)"
  shows "Progress_String pr = Inr (spec_line pr)"
proof -
  from assms consider "State pr = 0" | "State pr = 1" | "State pr = 2"
    by (auto simp: recognized_def StateProbe_def StateReplicate_def StateSnapshot_def)
  then show ?thesis
  proof cases
    case 1
    then show ?thesis
      by (simp add: Progress_String_def spec_line_def IsPaused_def StateType_String_def
          fmt_s_def prstmap_def StateProbe_def Let_def word_gt_0)
  next
    case 2
    then show ?thesis
      by (simp add: Progress_String_def spec_line_def IsPaused_def StateType_String_def
          fmt_s_def prstmap_def StateProbe_def StateReplicate_def Let_def word_gt_0)
  next
    case 3
    then show ?thesis
      by (simp add: Progress_String_def spec_line_def IsPaused_def StateType_String_def
          fmt_s_def prstmap_def StateProbe_def StateReplicate_def StateSnapshot_def Let_def
          word_gt_0)
  qed
qed

lemma Progress_String_unrecognized:
  "\<not> recognized (State pr) \<Longrightarrow> Progress_String pr = Inl (Panic ''unexpected state'')"
  by (simp add: recognized_def Progress_String_def IsPaused_def Let_def)

lemma prstmap_no_newline: "k < 3 \<Longrightarrow> CHR 0x0A \<notin> set (prstmap ! k)"
proof -
  assume "k < 3"
  then consider "k = 0" | "k = 1" | "k = 2" by linarith
  then show ?thesis by cases (simp_all add: prstmap_def)
qed

lemma spec_line_no_newline:
  assumes "recognized (State pr)"
  shows "CHR 0x0A \<notin> set (spec_line pr)"
proof -
  from assms have "unat (State pr) < 3"
    by (auto simp: recognized_def StateProbe_def StateReplicate_def StateSnapshot_def)
  then have "CHR 0x0A \<notin> set (prstmap ! unat (State pr))" by (rule prstmap_no_newline)
  then show ?thesis by (simp add: spec_line_def fmt_d_no_newline)
qed

lemma index_fmt_no_newline: "CHR 0x0A \<notin> set (index_fmt m fid)"
proof (cases "map_of m fid")
  case None
  then show ?thesis by (simp add: index_fmt_def)
next
  case (Some pr)
  show ?thesis
  proof (cases "recognized (State pr)")
    case True
    with Some show ?thesis
      by (simp add: index_fmt_def Progress_String_recognized fmt_s_def spec_line_no_newline)
  next
    case False
    with Some show ?thesis
      by (simp add: index_fmt_def Progress_String_unrecognized fmt_s_def)
  qed
qed

lemma range_keys_eq: "range_keys m ids = ids @ map fst m"
  by (induction m ids rule: range_keys.induct) simp_all

lemma write_lines_eq:
  "write_lines m ids buf =
     buf @ concat (map (\<lambda>fid. fmt_d (unat fid) @ '': '' @ index_fmt m fid @ [CHR 0x0A]) ids)"
  by (induction ids arbitrary: buf) simp_all

lemma sort_distinct_keys:
  "distinct (map fst m) \<Longrightarrow> sort (map fst m) = sorted_list_of_set (fst ` set m)"
proof -
  assume "distinct (map fst m)"
  then have "sort (map fst m) = sort (remdups (map fst m))" by (simp add: distinct_remdups_id)
  also have "\<dots> = sorted_list_of_set (set (map fst m))"
    by (rule sorted_list_of_set_sort_remdups [symmetric])
  finally show ?thesis by simp
qed

lemma ProgressMap_String_sorted:
  assumes "distinct (map fst m)"
  shows "ProgressMap_String m =
     concat (map (\<lambda>fid. fmt_d (unat fid) @ '': '' @ index_fmt m fid @ [CHR 0x0A])
               (sorted_list_of_set (fst ` set m)))"
  using assms
  by (simp add: ProgressMap_String_def range_keys_eq write_lines_eq sort_distinct_keys)

lemma index_fmt_cong:
  "map_of m' = map_of m \<Longrightarrow> index_fmt m' = index_fmt m"
  by (rule ext) (simp add: index_fmt_def)

lemma ProgressMap_String_order:
  assumes "distinct (map fst m)" and "distinct (map fst m')" and "set m' = set m"
  shows "ProgressMap_String m' = ProgressMap_String m"
proof -
  from assms have "map_of m' = map_of m" by (intro map_of_inject_set [THEN iffD2]) simp_all
  then have "index_fmt m' = index_fmt m" by (rule index_fmt_cong)
  with assms show ?thesis by (simp add: ProgressMap_String_sorted)
qed

lemma newline_count:
  "length (filter (\<lambda>c. c = CHR 0x0A)
     (concat (map (\<lambda>fid. fmt_d (unat fid) @ '': '' @ index_fmt m fid @ [CHR 0x0A]) ids)))
   = length ids"
proof (induction ids)
  case Nil
  show ?case by simp
next
  case (Cons fid ids)
  have "filter (\<lambda>c. c = CHR 0x0A) (fmt_d (unat fid)) = []"
    using fmt_d_no_newline [of "unat fid"] by (auto simp: filter_empty_conv)
  moreover have "filter (\<lambda>c. c = CHR 0x0A) (index_fmt m fid) = []"
    using index_fmt_no_newline [of m fid] by (auto simp: filter_empty_conv)
  ultimately show ?case using Cons.IH by simp
qed

text \<open>
  C9. For a table with every id once, the rendering is the concatenation, over the ids in
  ascending order, of one line per follower: the id, a colon, the follower's text and a
  line feed, where id and text hold no line feed, so there are as many lines as
  followers. It is the same for every order in which the map is walked. For a follower
  in one of the three declared states the text is the spec's line: the state name, match
  and next, then \<open>learner\<close>, \<open>paused\<close>, \<open>pendingSnap=n\<close>, \<open>inactive\<close> and
  \<open>inflight=count\<close> with \<open>[full]\<close>, each exactly under its condition.
\<close>

theorem ProgressMap_String_spec:
  assumes "distinct (map fst m)"
  shows "ProgressMap_String m =
           concat (map (\<lambda>fid. fmt_d (unat fid) @ '': '' @ index_fmt m fid @ [CHR 0x0A])
                     (sorted_list_of_set (fst ` set m)))
         \<and> (\<forall>fid. CHR 0x0A \<notin> set (fmt_d (unat fid) @ '': '' @ index_fmt m fid))
         \<and> length (filter (\<lambda>c. c = CHR 0x0A) (ProgressMap_String m)) = length m
         \<and> (\<forall>m'. distinct (map fst m') \<and> set m' = set m \<longrightarrow>
               ProgressMap_String m' = ProgressMap_String m)
         \<and> (\<forall>fid pr. (fid, pr) \<in> set m \<and> recognized (State pr) \<longrightarrow>
               index_fmt m fid = spec_line pr)"
proof -
  have sorted_form: "ProgressMap_String m =
      concat (map (\<lambda>fid. fmt_d (unat fid) @ '': '' @ index_fmt m fid @ [CHR 0x0A])
                (sorted_list_of_set (fst ` set m)))"
    using assms by (rule ProgressMap_String_sorted)
  have one_line: "\<forall>fid. CHR 0x0A \<notin> set (fmt_d (unat fid) @ '': '' @ index_fmt m fid)"
    by (simp add: fmt_d_no_newline index_fmt_no_newline)
  have "length (sorted_list_of_set (fst ` set m)) = length m"
    using assms by (simp flip: sort_distinct_keys)
  then have per_follower:
    "length (filter (\<lambda>c. c = CHR 0x0A) (ProgressMap_String m)) = length m"
    by (simp only: sorted_form newline_count)
  have any_order: "\<forall>m'. distinct (map fst m') \<and> set m' = set m \<longrightarrow>
      ProgressMap_String m' = ProgressMap_String m"
  proof (intro allI impI)
    fix m' assume "distinct (map fst m') \<and> set m' = set m"
    with assms show "ProgressMap_String m' = ProgressMap_String m"
      by (intro ProgressMap_String_order) simp_all
  qed
  have line: "\<forall>fid pr. (fid, pr) \<in> set m \<and> recognized (State pr) \<longrightarrow>
      index_fmt m fid = spec_line pr"
  proof (intro allI impI)
    fix fid pr assume entry: "(fid, pr) \<in> set m \<and> recognized (State pr)"
    with assms have "map_of m fid = Some pr" by simp
    with entry show "index_fmt m fid = spec_line pr"
      by (simp add: index_fmt_def Progress_String_recognized fmt_s_def)
  qed
  from sorted_form one_line per_follower any_order line show ?thesis by (intro conjI)
qed

lemma table0_keys: "sorted_list_of_set (fst ` set table0) = [1, 2, 3]"
proof -
  have "fst ` set table0 = set [2, 3, 1 :: u64]" by (simp add: table0_def)
  then show ?thesis
    by (simp only: sorted_list_of_set_sort_remdups) (simp add: word_le_nat_alt)
qed

lemma example_lines:
  "spec_line pr0 = ''StateProbe match=0 next=1''"
  "spec_line pr_full = ''StateReplicate match=5 next=8 learner paused inactive inflight=2[full]''"
  "spec_line pr_snap = ''StateSnapshot match=3 next=4 paused pendingSnap=12''"
  by (simp_all add: spec_line_def pr0_def pr_full_def pr_snap_def prstmap_def IsPaused_def
      StateProbe_def StateReplicate_def StateSnapshot_def Full_def Count_def
      fmt_d_small fmt_d_large digit_def)

theorem ProgressMap_String_spec_witness:
  "ProgressMap_String table0 =
     ''1: StateProbe match=0 next=1'' @ [CHR 0x0A]
     @ ''2: StateReplicate match=5 next=8 learner paused inactive inflight=2[full]'' @ [CHR 0x0A]
     @ ''3: StateSnapshot match=3 next=4 paused pendingSnap=12'' @ [CHR 0x0A]
   \<and> ProgressMap_String [(1, pr0), (2, pr_full), (3, pr_snap)] = ProgressMap_String table0
   \<and> length (filter (\<lambda>c. c = CHR 0x0A) (ProgressMap_String table0)) = 3"
proof -
  have keys: "distinct (map fst table0)" by (simp add: table0_def)
  note all = ProgressMap_String_spec [OF keys]
  note sorted_form = all [THEN conjunct1]
  note per_follower = all [THEN conjunct2, THEN conjunct2, THEN conjunct1]
  note any_order = all [THEN conjunct2, THEN conjunct2, THEN conjunct2, THEN conjunct1, rule_format]
  note line = all [THEN conjunct2, THEN conjunct2, THEN conjunct2, THEN conjunct2, rule_format]
  have l1: "index_fmt table0 1 = spec_line pr0"
    by (rule line) (simp add: table0_def recognized_def pr0_def)
  have l2: "index_fmt table0 2 = spec_line pr_full"
    by (rule line) (simp add: table0_def recognized_def pr_full_def)
  have l3: "index_fmt table0 3 = spec_line pr_snap"
    by (rule line) (simp add: table0_def recognized_def pr_snap_def)
  have out: "ProgressMap_String table0 =
     ''1: StateProbe match=0 next=1'' @ [CHR 0x0A]
     @ ''2: StateReplicate match=5 next=8 learner paused inactive inflight=2[full]'' @ [CHR 0x0A]
     @ ''3: StateSnapshot match=3 next=4 paused pendingSnap=12'' @ [CHR 0x0A]"
    by (subst sorted_form) (simp add: table0_keys l1 l2 l3 example_lines fmt_d_small digit_def)
  have order:
    "ProgressMap_String [(1, pr0), (2, pr_full), (3, pr_snap)] = ProgressMap_String table0"
    by (rule any_order) (auto simp: table0_def)
  have count: "length (filter (\<lambda>c. c = CHR 0x0A) (ProgressMap_String table0)) = 3"
    by (subst per_follower) (simp add: table0_def)
  from out order count show ?thesis by (intro conjI)
qed

text \<open>
  A follower whose state is none of the three has no state name: \<^verbatim>\<open>IsPaused\<close> panics
  inside its \<^verbatim>\<open>String\<close>, and its line shows the recovered panic.
\<close>

lemma unrecognized_line:
  "ProgressMap_String [(7, pr0\<lparr>State := 3\<rparr>)]
     = ''7: %!s(PANIC=String method: unexpected state)'' @ [CHR 0x0A]"
  by (simp add: ProgressMap_String_def index_fmt_def Progress_String_def IsPaused_def fmt_s_def
      pr0_def StateProbe_def StateReplicate_def StateSnapshot_def Let_def fmt_d_small digit_def)

subsection \<open>Rejections never raise \<open>Next\<close>\<close>

text \<open>
  C10. For a Progress with \<open>Next \<ge> 1\<close> and \<open>Next \<ge> Match + 1\<close>, a call of
  \<^verbatim>\<open>MaybeDecrTo\<close> never raises \<open>Next\<close>: in every state, for every rejected index and
  hint, whether it returns true or false, \<open>Next\<close> afterwards is at most \<open>Next\<close> before.
\<close>

theorem MaybeDecrTo_Next_le:
  assumes one: "1 \<le> Next pr" and inv: "Match pr + 1 \<le> Next pr"
  shows "Next (snd (MaybeDecrTo pr rejected matchHint)) \<le> Next pr"
proof (cases "State pr = StateReplicate")
  case True
  then show ?thesis using inv by (simp add: MaybeDecrTo_def)
next
  case probing: False
  show ?thesis
  proof (cases "Next pr - 1 = rejected")
    case False
    with probing show ?thesis by (simp add: MaybeDecrTo_def)
  next
    case True
    from one have "Next pr - 1 \<le> Next pr" by (rule word_sub_le)
    with True have "rejected \<le> Next pr" by simp
    then have "min rejected (matchHint + 1) \<le> Next pr" by (simp add: min.coboundedI1)
    with one have "max (min rejected (matchHint + 1)) 1 \<le> Next pr" by simp
    with probing True show ?thesis
      by (simp add: MaybeDecrTo_def max_u64_max min_u64_min)
  qed
qed

theorem MaybeDecrTo_Next_le_witness:
  "Next (snd (MaybeDecrTo (pr0\<lparr>Next := 5\<rparr>) 4 1)) \<le> 5
   \<and> Next (snd (MaybeDecrTo (pr0\<lparr>State := StateReplicate, Match := 2, Next := 9\<rparr>) 6 0)) \<le> 9"
  using MaybeDecrTo_Next_le [of "pr0\<lparr>Next := 5\<rparr>" 4 1]
    MaybeDecrTo_Next_le [of "pr0\<lparr>State := StateReplicate, Match := 2, Next := 9\<rparr>" 6 0]
  by (simp add: pr0_def)

end
